theory Spec2Isabelle
  imports
    Complex_Main
    "HOL-Library.Word"
    "HOL-Library.Char_ord"
    "HOL-Library.List_Lexorder"
begin

section \<open>Values shared by the store, the upload service and the page\<close>

text \<open>
  A \<open>Blob\<close> is the recorded video: its bytes and its MIME type. Both survive the
  structured clone that IndexedDB performs, so the model stores the value itself.
\<close>

type_synonym byte = "8 word"

datatype Blob = Blob (bytes: "byte list") (mime: string)

text \<open>
  \<^verbatim>\<open>interface StoredVideo { id; blob; timestamp; uploaded; fileName }\<close>
  (the field \<open>id\<close> is written \<open>id_v\<close>: \<open>id\<close> is the identity function of HOL).
\<close>

record StoredVideo =
  id_v :: string
  blob :: Blob
  timestamp :: nat
  uploaded :: bool
  fileName :: string

text \<open>
  What a promise of the storage service rejects with: \<^verbatim>\<open>new Error(msg)\<close> thrown by the
  service itself, or the \<open>ConstraintError\<close> that \<^verbatim>\<open>store.add\<close> reports through
  \<^verbatim>\<open>request.error\<close> when the key is already present.
\<close>

datatype error = Error string | ConstraintError

abbreviation NotFound :: error where
  "NotFound \<equiv> Error ''Video not found''"

subsection \<open>Template literals: numbers as decimal strings\<close>

definition digit :: "nat \<Rightarrow> char" where
  "digit d = char_of (48 + d)"

fun string_of_nat :: "nat \<Rightarrow> string" where
  "string_of_nat n =
     (if n < 10 then [digit n] else string_of_nat (n div 10) @ [digit (n mod 10)])"

declare string_of_nat.simps [simp del]

text \<open>\<^verbatim>\<open>s.substr(start, len)\<close> and \<^verbatim>\<open>s.split(c)[0]\<close>.\<close>

definition substr :: "nat \<Rightarrow> nat \<Rightarrow> string \<Rightarrow> string" where
  "substr start len s = take len (drop start s)"

definition split_first :: "char \<Rightarrow> string \<Rightarrow> string" where
  "split_first c s = takeWhile (\<lambda>x. x \<noteq> c) s"

section \<open>videoStorage.ts: the IndexedDB object store\<close>

text \<open>
  The object store \<open>videos\<close> is created with \<^verbatim>\<open>{ keyPath: 'id' }\<close>: the key of a stored
  value is its own \<open>id\<close> field. The store is the list of its values in insertion order;
  \<^verbatim>\<open>add\<close> refuses a key that is present, \<^verbatim>\<open>put\<close> replaces the value under the key or
  inserts it, \<^verbatim>\<open>delete\<close> of an absent key succeeds and changes nothing, \<^verbatim>\<open>get\<close> of an
  absent key yields \<open>undefined\<close> (here \<open>None\<close>), and \<^verbatim>\<open>getAll\<close> returns the values in
  ascending key order. Requests fail only where IndexedDB says they do for these
  arguments; quota and hardware failures of the platform are outside the model, and the
  timing of transactions is not represented.
\<close>

type_synonym object_store = "StoredVideo list"

definition store_get :: "string \<Rightarrow> object_store \<Rightarrow> StoredVideo option" where
  "store_get k vs = find (\<lambda>v. id_v v = k) vs"

definition store_add :: "StoredVideo \<Rightarrow> object_store \<Rightarrow> error + object_store" where
  "store_add v vs =
     (case store_get (id_v v) vs of
        Some w \<Rightarrow> Inl ConstraintError
      | None \<Rightarrow> Inr (vs @ [v]))"

definition store_put :: "StoredVideo \<Rightarrow> object_store \<Rightarrow> object_store" where
  "store_put v vs =
     (case store_get (id_v v) vs of
        Some w \<Rightarrow> map (\<lambda>x. if id_v x = id_v v then v else x) vs
      | None \<Rightarrow> vs @ [v])"

definition store_delete :: "string \<Rightarrow> object_store \<Rightarrow> object_store" where
  "store_delete k vs = filter (\<lambda>v. id_v v \<noteq> k) vs"

definition store_getAll :: "object_store \<Rightarrow> StoredVideo list" where
  "store_getAll vs = sort_key id_v vs"

text \<open>
  \<^verbatim>\<open>class VideoStorageService { private db: IDBDatabase | null = null; ... }\<close>
  The field \<open>db\<close> records whether the connection has been opened; \<open>videos\<close> is the
  content of the browser's object store, which outlives the connection.
\<close>

record VideoStorageService =
  db :: bool
  videos :: object_store

text \<open>
  \<^verbatim>\<open>init\<close> opens the database and creates the object store when it does not exist;
  values already stored are kept.
\<close>

definition init :: "VideoStorageService \<Rightarrow> VideoStorageService" where
  "init svc = svc\<lparr>db := True\<rparr>"

text \<open>\<^verbatim>\<open>if (!this.db) await this.init();\<close>\<close>

definition ensure_db :: "VideoStorageService \<Rightarrow> VideoStorageService" where
  "ensure_db svc = (if \<not> db svc then init svc else svc)"

text \<open>
  The readings \<^verbatim>\<open>saveVideo\<close> takes from its environment, in the order it takes them:
  \<^verbatim>\<open>Date.now()\<close> for the id, the string \<^verbatim>\<open>Math.random().toString(36)\<close>, \<^verbatim>\<open>Date.now()\<close>
  for the timestamp and \<^verbatim>\<open>new Date().toISOString()\<close> for the file name.
\<close>

record save_env =
  now_id :: nat
  random36 :: string
  now_timestamp :: nat
  isoString :: string

definition video_id :: "save_env \<Rightarrow> string" where
  "video_id env =
     ''video_'' @ string_of_nat (now_id env) @ ''_'' @ substr 2 9 (random36 env)"

definition new_video :: "Blob \<Rightarrow> save_env \<Rightarrow> StoredVideo" where
  "new_video b env =
     \<lparr> id_v = video_id env,
       blob = b,
       timestamp = now_timestamp env,
       uploaded = False,
       fileName = ''recording_'' @ split_first (CHR ''T'') (isoString env) @ ''.webm'' \<rparr>"

definition saveVideo ::
  "Blob \<Rightarrow> save_env \<Rightarrow> VideoStorageService \<Rightarrow> (error + string) \<times> VideoStorageService" where
  "saveVideo b env svc0 =
     (let svc = ensure_db svc0;
          video = new_video b env
      in case store_add video (videos svc) of
           Inl e \<Rightarrow> (Inl e, svc)
         | Inr vs \<Rightarrow> (Inr (id_v video), svc\<lparr>videos := vs\<rparr>))"

definition getAllVideos ::
  "VideoStorageService \<Rightarrow> StoredVideo list \<times> VideoStorageService" where
  "getAllVideos svc0 = (let svc = ensure_db svc0 in (store_getAll (videos svc), svc))"

text \<open>\<^verbatim>\<open>resolve(request.result || null)\<close>: a stored object is truthy, an absent key gives null.\<close>

definition getVideo ::
  "string \<Rightarrow> VideoStorageService \<Rightarrow> StoredVideo option \<times> VideoStorageService" where
  "getVideo k svc0 = (let svc = ensure_db svc0 in (store_get k (videos svc), svc))"

definition markAsUploaded ::
  "string \<Rightarrow> VideoStorageService \<Rightarrow> (error + unit) \<times> VideoStorageService" where
  "markAsUploaded k svc0 =
     (let svc = ensure_db svc0;
          (video, svc1) = getVideo k svc
      in case video of
           None \<Rightarrow> (Inl (Error ''Video not found''), svc1)
         | Some v \<Rightarrow>
             (Inr (), svc1\<lparr>videos := store_put (v\<lparr>uploaded := True\<rparr>) (videos svc1)\<rparr>))"

definition deleteVideo ::
  "string \<Rightarrow> VideoStorageService \<Rightarrow> (error + unit) \<times> VideoStorageService" where
  "deleteVideo k svc0 =
     (let svc = ensure_db svc0
      in (Inr (), svc\<lparr>videos := store_delete k (videos svc)\<rparr>))"

text \<open>
  \<^verbatim>\<open>getStorageEstimate\<close>: the argument is what \<^verbatim>\<open>navigator.storage.estimate()\<close> reports,
  \<open>None\<close> when the browser has no such interface; a missing figure reads as 0.
\<close>

definition getStorageEstimate :: "(nat option \<times> nat option) option \<Rightarrow> nat \<times> nat" where
  "getStorageEstimate est =
     (case est of
        Some (u, q) \<Rightarrow> (case u of Some x \<Rightarrow> x | None \<Rightarrow> 0, case q of Some y \<Rightarrow> y | None \<Rightarrow> 0)
      | None \<Rightarrow> (0, 0))"

text \<open>
  One call of the storage service, for statements about every operation: the state the
  service is left in, whatever the call returns.
\<close>

datatype store_call =
    Init
  | SaveVideo Blob save_env
  | GetAllVideos
  | GetVideo string
  | MarkAsUploaded string
  | DeleteVideo string
  | GetStorageEstimate "(nat option \<times> nat option) option"

fun exec :: "store_call \<Rightarrow> VideoStorageService \<Rightarrow> VideoStorageService" where
  "exec Init svc = init svc"
| "exec (SaveVideo b env) svc = snd (saveVideo b env svc)"
| "exec GetAllVideos svc = snd (getAllVideos svc)"
| "exec (GetVideo k) svc = snd (getVideo k svc)"
| "exec (MarkAsUploaded k) svc = snd (markAsUploaded k svc)"
| "exec (DeleteVideo k) svc = snd (deleteVideo k svc)"
| "exec (GetStorageEstimate est) svc = svc"

section \<open>uploadService.ts: the three upload strategies\<close>

datatype UploadStatus = Idle | Uploading | Success | Failed

text \<open>
  \<^verbatim>\<open>interface UploadResult { success; message; uploadedUrl? }\<close> (its \<open>message\<close> is
  written \<open>result_message\<close>, to keep it apart from the one of \<open>UploadProgress\<close>).
\<close>

record UploadResult =
  success :: bool
  result_message :: string
  uploadedUrl :: "string option"

record UploadProgress =
  status :: UploadStatus
  progress :: nat
  message :: string

text \<open>
  The optional callback \<^verbatim>\<open>onProgress?: (progress: UploadProgress) => void\<close> acts on
  the state of whoever supplied it; \<^verbatim>\<open>onProgress?.(p)\<close> does nothing when there is none.
\<close>

type_synonym 's observer = "(UploadProgress \<Rightarrow> 's \<Rightarrow> 's) option"

definition notify :: "'s observer \<Rightarrow> UploadProgress \<Rightarrow> 's \<Rightarrow> 's" where
  "notify onProgress p s = (case onProgress of None \<Rightarrow> s | Some f \<Rightarrow> f p s)"

text \<open>
  What the strategies read from their environment: \<^verbatim>\<open>Math.random()\<close>, a double in
  \<open>[0, 1)\<close> and so a rational; \<^verbatim>\<open>Date.now()\<close>; the way \<^verbatim>\<open>fetch\<close> and
  \<^verbatim>\<open>response.json()\<close> settle; and the message of the \<open>TypeError\<close> that the engine
  throws when a property of \<open>null\<close> is read.

  A thrown value is an \<open>Error\<close> with its message (\<open>JsError\<close>) or anything else
  (\<open>JsOther\<close>). The value that \<^verbatim>\<open>response.json()\<close> resolves to is \<open>null\<close>, or any
  other JSON value, given by what reading its \<open>url\<close> property yields (\<open>None\<close> for
  undefined). \<open>Response ok status statusText body\<close> is a resolved \<^verbatim>\<open>fetch\<close>, where
  \<open>body\<close> is how \<^verbatim>\<open>response.json()\<close> settles: \<open>Inl\<close> when it rejects.
\<close>

datatype js_exn = JsError string | JsOther

datatype json_value = JsonNull | JsonValue "string option"

datatype fetch_result =
    FetchRejected js_exn
  | Response bool nat string "js_exn + json_value"

record upload_env =
  random :: rat
  now :: nat
  fetch :: fetch_result
  null_property_message :: string

text \<open>The literal \<^verbatim>\<open>0.3\<close> is the double \<open>5404319552844595 / 2^54\<close>.\<close>

definition double_0_3 :: rat where
  "double_0_3 = 5404319552844595 / 18014398509481984"

text \<open>\<^verbatim>\<open>await this.delay(ms)\<close> only waits, so it has no counterpart below.\<close>

function mock_loop :: "nat \<Rightarrow> 's observer \<Rightarrow> 's \<Rightarrow> 's" where
  "mock_loop i onProgress s =
     (if i \<le> 100 then
        mock_loop (i + 10) onProgress
          (notify onProgress
             \<lparr> status = Uploading, progress = i,
               message = ''Uploading... '' @ string_of_nat i @ ''%'' \<rparr> s)
      else s)"
  by pat_completeness auto
termination
  by (relation "measure (\<lambda>(i, f, s). 101 - i)") auto

declare mock_loop.simps [simp del]

definition mockUpload ::
  "Blob \<Rightarrow> upload_env \<Rightarrow> 's observer \<Rightarrow> 's \<Rightarrow> UploadResult \<times> 's" where
  "mockUpload b env onProgress s0 =
     (let s1 = mock_loop 0 onProgress s0;
          shouldSucceed = (random env > double_0_3)
      in if shouldSucceed then
           (let mockUrl =
                  ''https://mock-cdn.example.com/videos/'' @ string_of_nat (now env) @ ''.webm'';
                s2 = notify onProgress
                       \<lparr> status = Success, progress = 100,
                         message = ''Upload successful!'' \<rparr> s1
            in (\<lparr> success = True, result_message = ''Video uploaded successfully'',
                   uploadedUrl = Some mockUrl \<rparr>, s2))
         else
           (let s2 = notify onProgress
                       \<lparr> status = Failed, progress = 0,
                         message = ''Upload failed - Network error'' \<rparr> s1
            in (\<lparr> success = False,
                   result_message = ''Upload failed - Network error simulated'',
                   uploadedUrl = None \<rparr>, s2)))"

text \<open>
  The \<^verbatim>\<open>try\<close> block of \<^verbatim>\<open>realUpload\<close>: it ends by returning a result or by throwing,
  and the notifications made before a throw stay made.
\<close>

definition realUpload_try ::
  "Blob \<Rightarrow> upload_env \<Rightarrow> 's observer \<Rightarrow> 's \<Rightarrow> (js_exn + UploadResult) \<times> 's" where
  "realUpload_try b env onProgress s0 =
     (let s1 = notify onProgress
                 \<lparr> status = Uploading, progress = 50,
                   message = ''Uploading to server...'' \<rparr> s0
      in case fetch env of
           FetchRejected e \<Rightarrow> (Inl e, s1)
         | Response ok code statusText body \<Rightarrow>
             if \<not> ok then
               (Inl (JsError (''HTTP '' @ string_of_nat code @ '': '' @ statusText)), s1)
             else
               (case body of
                  Inl e \<Rightarrow> (Inl e, s1)
                | Inr result \<Rightarrow>
                    (let s2 = notify onProgress
                                \<lparr> status = Success, progress = 100,
                                  message = ''Upload successful!'' \<rparr> s1
                     in case result of
                          JsonNull \<Rightarrow> (Inl (JsError (null_property_message env)), s2)
                        | JsonValue url \<Rightarrow>
                            (Inr \<lparr> success = True,
                                   result_message = ''Video uploaded successfully'',
                                   uploadedUrl = url \<rparr>, s2))))"

definition realUpload ::
  "Blob \<Rightarrow> upload_env \<Rightarrow> 's observer \<Rightarrow> 's \<Rightarrow> UploadResult \<times> 's" where
  "realUpload b env onProgress s0 =
     (case realUpload_try b env onProgress s0 of
        (Inr r, s) \<Rightarrow> (r, s)
      | (Inl err, s) \<Rightarrow>
          (let errorMessage =
                 (case err of JsError m \<Rightarrow> m | JsOther \<Rightarrow> ''Unknown error occurred'');
               s' = notify onProgress
                      \<lparr> status = Failed, progress = 0,
                        message = ''Upload failed: '' @ errorMessage \<rparr> s
           in (\<lparr> success = False, result_message = ''Upload failed: '' @ errorMessage,
                  uploadedUrl = None \<rparr>, s')))"

function force_fail_loop :: "nat \<Rightarrow> 's observer \<Rightarrow> 's \<Rightarrow> 's" where
  "force_fail_loop i onProgress s =
     (if i \<le> 60 then
        force_fail_loop (i + 20) onProgress
          (notify onProgress
             \<lparr> status = Uploading, progress = i,
               message = ''Uploading... '' @ string_of_nat i @ ''%'' \<rparr> s)
      else s)"
  by pat_completeness auto
termination
  by (relation "measure (\<lambda>(i, f, s). 61 - i)") auto

declare force_fail_loop.simps [simp del]

definition forceFailUpload :: "'s observer \<Rightarrow> 's \<Rightarrow> UploadResult \<times> 's" where
  "forceFailUpload onProgress s0 =
     (let s1 = force_fail_loop 0 onProgress s0;
          s2 = notify onProgress
                 \<lparr> status = Failed, progress = 0,
                   message = ''Network connection lost'' \<rparr> s1
      in (\<lparr> success = False,
             result_message = ''Network connection lost - Upload failed'',
             uploadedUrl = None \<rparr>, s2))"

section \<open>page.tsx: the upload coordinator\<close>

datatype upload_mode = Mock | Real | ForceFail

text \<open>
  The state the handlers of the page act on: the storage singleton, the React state
  \<open>uploadProgress\<close>, \<open>storedVideos\<close> and \<open>uploadMode\<close>, and the number of
  \<^verbatim>\<open>setTimeout\<close> callbacks that are scheduled and have not run.
\<close>

record page_state =
  storage :: VideoStorageService
  uploadProgress :: UploadProgress
  storedVideos :: "StoredVideo list"
  uploadMode :: upload_mode
  pendingResets :: nat

definition setUploadProgress :: "UploadProgress \<Rightarrow> page_state \<Rightarrow> page_state" where
  "setUploadProgress p st = st\<lparr>uploadProgress := p\<rparr>"

definition loadStoredVideos :: "page_state \<Rightarrow> page_state" where
  "loadStoredVideos st =
     (let (vs, svc) = getAllVideos (storage st)
      in st\<lparr>storage := svc, storedVideos := vs\<rparr>)"

text \<open>The \<^verbatim>\<open>if / else if / else\<close> on \<open>uploadMode\<close> in \<^verbatim>\<open>handleUpload\<close>.\<close>

definition upload_by_mode ::
  "upload_mode \<Rightarrow> Blob \<Rightarrow> upload_env \<Rightarrow> 's observer \<Rightarrow> 's \<Rightarrow> UploadResult \<times> 's" where
  "upload_by_mode m b env onProgress s =
     (if m = Mock then mockUpload b env onProgress s
      else if m = Real then realUpload b env onProgress s
      else forceFailUpload onProgress s)"

text \<open>
  \<^verbatim>\<open>setTimeout(() => setUploadProgress({ status: 'idle', ... }), 3000)\<close> schedules the
  callback; \<open>reset_callback\<close> is the callback running.
\<close>

definition schedule_reset :: "page_state \<Rightarrow> page_state" where
  "schedule_reset st = st\<lparr>pendingResets := pendingResets st + 1\<rparr>"

definition reset_callback :: "page_state \<Rightarrow> page_state" where
  "reset_callback st =
     (setUploadProgress \<lparr> status = Idle, progress = 0, message = [] \<rparr> st)
       \<lparr>pendingResets := pendingResets st - 1\<rparr>"

text \<open>
  \<^verbatim>\<open>handleUpload\<close>: a rejection of \<^verbatim>\<open>markAsUploaded\<close> is not caught, so the rest of the
  handler does not run and the handler's promise rejects with that error.
\<close>

definition handleUpload ::
  "string \<Rightarrow> Blob \<Rightarrow> upload_env \<Rightarrow> page_state \<Rightarrow> (error + unit) \<times> page_state" where
  "handleUpload videoId b env st0 =
     (let st1 = setUploadProgress
                  \<lparr> status = Uploading, progress = 0, message = ''Starting upload...'' \<rparr> st0;
          (result, st2) = upload_by_mode (uploadMode st1) b env (Some setUploadProgress) st1
      in if success result then
           (case markAsUploaded videoId (storage st2) of
              (Inl e, svc) \<Rightarrow> (Inl e, st2\<lparr>storage := svc\<rparr>)
            | (Inr u, svc) \<Rightarrow>
                (Inr (), schedule_reset (loadStoredVideos (st2\<lparr>storage := svc\<rparr>))))
         else (Inr (), schedule_reset st2))"

text \<open>\<^verbatim>\<open>handleDelete\<close> catches and logs whatever the deletion throws.\<close>

definition handleDelete :: "string \<Rightarrow> page_state \<Rightarrow> page_state" where
  "handleDelete videoId st =
     (case deleteVideo videoId (storage st) of
        (Inl e, svc) \<Rightarrow> st\<lparr>storage := svc\<rparr>
      | (Inr u, svc) \<Rightarrow> loadStoredVideos (st\<lparr>storage := svc\<rparr>))"

text \<open>
  The \<^verbatim>\<open>onClick\<close> of the upload button under the recorder
  (\<^verbatim>\<open>const video = await videoStorage.getVideo(recordedVideoId); if (video) handleUpload(...)\<close>).
  The handler does not await \<^verbatim>\<open>handleUpload\<close>; the model returns how the started
  upload ends, so that it can be observed.
\<close>

definition upload_button_onClick ::
  "string \<Rightarrow> upload_env \<Rightarrow> page_state \<Rightarrow> (error + unit) \<times> page_state" where
  "upload_button_onClick recordedVideoId env st =
     (let (video, svc) = getVideo recordedVideoId (storage st);
          st' = st\<lparr>storage := svc\<rparr>
      in case video of
           None \<Rightarrow> (Inr (), st')
         | Some v \<Rightarrow> handleUpload recordedVideoId (blob v) env st')"

text \<open>
  The upload button of an entry of the list of stored videos
  (\<^verbatim>\<open>onClick={() => handleUpload(video.id, video.blob)}\<close>), rendered when
  \<^verbatim>\<open>!video.uploaded\<close>; both upload buttons carry
  \<^verbatim>\<open>disabled={uploadProgress.status === 'uploading'}\<close>.
\<close>

definition stored_video_onClick ::
  "StoredVideo \<Rightarrow> upload_env \<Rightarrow> page_state \<Rightarrow> (error + unit) \<times> page_state" where
  "stored_video_onClick video env st = handleUpload (id_v video) (blob video) env st"

definition upload_disabled :: "page_state \<Rightarrow> bool" where
  "upload_disabled st = (status (uploadProgress st) = Uploading)"

section \<open>Observing a strategy\<close>

text \<open>
  An observer that keeps every notification, in the order of the calls; the notifications
  of one upload are what it holds after the call, started on the empty list.
\<close>

definition record_progress :: "UploadProgress \<Rightarrow> UploadProgress list \<Rightarrow> UploadProgress list" where
  "record_progress p tr = tr @ [p]"

definition notifications :: "upload_mode \<Rightarrow> Blob \<Rightarrow> upload_env \<Rightarrow> UploadProgress list" where
  "notifications m b env = snd (upload_by_mode m b env (Some record_progress) [])"

definition outcome :: "upload_mode \<Rightarrow> Blob \<Rightarrow> upload_env \<Rightarrow> UploadResult" where
  "outcome m b env = fst (upload_by_mode m b env (Some record_progress) [])"

definition terminal :: "UploadProgress \<Rightarrow> bool" where
  "terminal p = (status p = Success \<or> status p = Failed)"

text \<open>
  Calling the callback on a list of notifications, first to last, and the notification
  that both simulated strategies make at step \<open>i\<close> of their loop.
\<close>

definition notify_all :: "'s observer \<Rightarrow> UploadProgress list \<Rightarrow> 's \<Rightarrow> 's" where
  "notify_all onProgress ps s = foldl (\<lambda>t p. notify onProgress p t) s ps"

definition uploading_at :: "nat \<Rightarrow> UploadProgress" where
  "uploading_at i =
     \<lparr> status = Uploading, progress = i,
       message = ''Uploading... '' @ string_of_nat i @ ''%'' \<rparr>"

section \<open>Concrete states for the examples\<close>

definition svc_example :: VideoStorageService where
  "svc_example = \<lparr> db = False, videos =
     [\<lparr> id_v = ''video_1704567890123_abc123'', blob = Blob [1, 2, 3] ''video/webm'',
        timestamp = 1704567890123, uploaded = False, fileName = ''recording_2024-01-06.webm'' \<rparr>] \<rparr>"

definition env_example :: save_env where
  "env_example = \<lparr> now_id = 1704567950456, random36 = ''0.def456ghixyz'',
     now_timestamp = 1704567950457, isoString = ''2024-01-06T19:05:50.457Z'' \<rparr>"

definition video_example :: StoredVideo where
  "video_example =
     \<lparr> id_v = ''video_1704567890123_abc123'', blob = Blob [1, 2, 3] ''video/webm'',
       timestamp = 1704567890123, uploaded = False, fileName = ''recording_2024-01-06.webm'' \<rparr>"

definition blob_example :: Blob where
  "blob_example = Blob [1, 2, 3] ''video/webm''"

definition upload_env_example :: upload_env where
  "upload_env_example =
     \<lparr> random = 1 / 2, now = 1704567990000,
       fetch = Response True 200 ''OK'' (Inr (JsonValue (Some ''https://httpbin.org/post''))),
       null_property_message = ''result is null'' \<rparr>"

definition null_body_env :: upload_env where
  "null_body_env = upload_env_example\<lparr>fetch := Response True 200 ''OK'' (Inr JsonNull)\<rparr>"

definition page_example :: page_state where
  "page_example =
     \<lparr> storage = svc_example,
       uploadProgress = \<lparr> status = Idle, progress = 0, message = [] \<rparr>,
       storedVideos = [video_example],
       uploadMode = ForceFail,
       pendingResets = 0 \<rparr>"

section \<open>The object store\<close>

lemma store_get_SomeD: "store_get k vs = Some v \<Longrightarrow> id_v v = k \<and> v \<in> set vs"
  by (auto simp: store_get_def find_Some_iff)

lemma store_get_None_iff: "store_get k vs = None \<longleftrightarrow> k \<notin> id_v ` set vs"
  by (auto simp: store_get_def find_None_iff)

lemma store_get_append:
  "store_get k (vs @ ws) = (case store_get k vs of Some v \<Rightarrow> Some v | None \<Rightarrow> store_get k ws)"
  by (induction vs) (auto simp: store_get_def)

lemma store_get_replace:
  "id_v w = k \<Longrightarrow>
   store_get k' (map (\<lambda>x. if id_v x = k then w else x) vs) =
     (if k' = k then map_option (\<lambda>_. w) (store_get k vs) else store_get k' vs)"
  by (induction vs) (auto simp: store_get_def)

lemma store_get_delete:
  "store_get k' (store_delete k vs) = (if k' = k then None else store_get k' vs)"
  by (induction vs) (auto simp: store_get_def store_delete_def)

lemma store_get_put:
  "store_get k (store_put v vs) = (if k = id_v v then Some v else store_get k vs)"
  by (auto simp: store_put_def store_get_append store_get_replace split: option.splits)
   (auto simp: store_get_def)

lemma store_get_add:
  "store_add v vs = Inr ws \<Longrightarrow>
   store_get k ws = (if k = id_v v then Some v else store_get k vs)"
  by (auto simp: store_add_def store_get_append split: option.splits)
    (auto simp: store_get_def)


lemma replace_absent:
  "store_get k vs = None \<Longrightarrow> map (\<lambda>x. if id_v x = k then w else x) vs = vs"
  by (induction vs) (auto simp: store_get_def split: if_splits)

lemma replace_twice:
  "id_v w = k \<Longrightarrow>
   map (\<lambda>x. if id_v x = k then w else x) (map (\<lambda>x. if id_v x = k then w else x) vs) =
   map (\<lambda>x. if id_v x = k then w else x) vs"
  by (induction vs) auto

lemma store_put_twice: "store_put v (store_put v vs) = store_put v vs"
proof (cases "store_get (id_v v) vs")
  case None
  have "store_get (id_v v) [v] = Some v"
    by (simp add: store_get_def)
  then have "store_get (id_v v) (vs @ [v]) = Some v"
    using None by (simp add: store_get_append)
  then show ?thesis
    using None by (simp add: store_put_def replace_absent)
next
  case (Some w)
  then show ?thesis
    by (simp add: store_put_def store_get_replace replace_twice)
qed

lemma ensure_db_simps [simp]:
  "db (ensure_db svc) = True" "videos (ensure_db svc) = videos svc"
  "db svc \<Longrightarrow> ensure_db svc = svc"
  by (simp_all add: ensure_db_def init_def)

lemma ensure_db_twice [simp]: "ensure_db (ensure_db svc) = ensure_db svc"
  by simp

lemma getVideo_eq: "getVideo k svc = (store_get k (videos svc), ensure_db svc)"
  by (simp add: getVideo_def Let_def)

lemma markAsUploaded_eq:
  "markAsUploaded k svc =
     (case store_get k (videos svc) of
        None \<Rightarrow> (Inl NotFound, ensure_db svc)
      | Some v \<Rightarrow> (Inr (), (ensure_db svc)\<lparr>videos := store_put (v\<lparr>uploaded := True\<rparr>) (videos svc)\<rparr>))"
  by (simp add: markAsUploaded_def getVideo_eq Let_def split: option.splits)

lemma deleteVideo_eq:
  "deleteVideo k svc = (Inr (), (ensure_db svc)\<lparr>videos := store_delete k (videos svc)\<rparr>)"
  by (simp add: deleteVideo_def Let_def)

lemma saveVideo_eq:
  "saveVideo b env svc =
     (case store_get (video_id env) (videos svc) of
        Some w \<Rightarrow> (Inl ConstraintError, ensure_db svc)
      | None \<Rightarrow> (Inr (video_id env), (ensure_db svc)\<lparr>videos := videos svc @ [new_video b env]\<rparr>))"
  by (simp add: saveVideo_def store_add_def Let_def new_video_def split: option.splits)

section \<open>Decimal strings and the shape of an id\<close>

lemma of_char_digit: "d < 10 \<Longrightarrow> of_char (digit d) = 48 + d"
  by (simp add: digit_def)

lemma digit_inj:
  assumes "a < 10" and "b < 10" and "digit a = digit b"
  shows "a = b"
proof -
  from assms(3) have "(of_char (digit a) :: nat) = of_char (digit b)"
    by (rule arg_cong)
  then have "48 + a = 48 + b"
    by (simp only: of_char_digit [OF assms(1)] of_char_digit [OF assms(2)])
  then show ?thesis by arith
qed

lemma digit_not_underscore:
  assumes "d < 10" shows "digit d \<noteq> CHR ''_''"
proof
  assume "digit d = CHR ''_''"
  then have "(of_char (digit d) :: nat) = of_char (CHR ''_'')"
    by (rule arg_cong)
  then have "48 + d = 95"
    by (simp add: of_char_digit [OF assms])
  with assms show False by arith
qed

lemma digit_eval:
  "digit 0 = CHR ''0''" "digit 1 = CHR ''1''" "digit 2 = CHR ''2''" "digit 3 = CHR ''3''"
  "digit 4 = CHR ''4''" "digit 5 = CHR ''5''" "digit 6 = CHR ''6''" "digit 7 = CHR ''7''"
  "digit 8 = CHR ''8''" "digit 9 = CHR ''9''" "digit (Suc 0) = CHR ''1''"
  by (simp_all add: digit_def char_of_def bit_0)

lemma string_of_nat_small: "n < 10 \<Longrightarrow> string_of_nat n = [digit n]"
  by (simp add: string_of_nat.simps)

lemma string_of_nat_large:
  "\<not> n < 10 \<Longrightarrow> string_of_nat n = string_of_nat (n div 10) @ [digit (n mod 10)]"
  by (subst string_of_nat.simps) simp

lemma string_of_nat_nonempty: "string_of_nat n \<noteq> []"
  by (cases "n < 10") (simp_all add: string_of_nat_small string_of_nat_large)

lemma string_of_nat_no_underscore: "CHR ''_'' \<notin> set (string_of_nat n)"
proof (induction n rule: string_of_nat.induct)
  case (1 n)
  show ?case
  proof (cases "n < 10")
    case True
    then show ?thesis
      using digit_not_underscore [of n] by (auto simp: string_of_nat_small)
  next
    case False
    have "n mod 10 < 10" by simp
    then have "digit (n mod 10) \<noteq> CHR ''_''"
      by (rule digit_not_underscore)
    with False "1.IH" show ?thesis
      by (auto simp: string_of_nat_large)
  qed
qed

lemma string_of_nat_inj: "string_of_nat n = string_of_nat m \<Longrightarrow> n = m"
proof (induction n arbitrary: m rule: string_of_nat.induct)
  case (1 n)
  show ?case
  proof (cases "n < 10")
    case n: True
    show ?thesis
    proof (cases "m < 10")
      case True
      with n "1.prems" show ?thesis
        by (simp add: string_of_nat_small digit_inj)
    next
      case False
      with n "1.prems" string_of_nat_nonempty [of "m div 10"] show ?thesis
        by (auto simp: string_of_nat_small string_of_nat_large)
    qed
  next
    case n: False
    show ?thesis
    proof (cases "m < 10")
      case True
      with n "1.prems" string_of_nat_nonempty [of "n div 10"] show ?thesis
        by (auto simp: string_of_nat_small string_of_nat_large)
    next
      case False
      with n "1.prems" have
        e: "string_of_nat (n div 10) = string_of_nat (m div 10)"
        and d: "digit (n mod 10) = digit (m mod 10)"
        by (simp_all add: string_of_nat_large)
      from n e have "n div 10 = m div 10"
        by (rule "1.IH")
      moreover have "n mod 10 = m mod 10"
        using d by (intro digit_inj) simp_all
      ultimately show ?thesis
        by (metis div_mult_mod_eq)
    qed
  qed
qed

lemma before_separator:
  assumes "xs @ c # ys = xs' @ c # ys'" and "c \<notin> set xs" and "c \<notin> set xs'"
  shows "xs = xs'"
proof -
  have "takeWhile (\<lambda>x. x \<noteq> c) (xs @ c # ys) = xs"
    using assms(2) by (auto simp: takeWhile_tail)
  moreover have "takeWhile (\<lambda>x. x \<noteq> c) (xs' @ c # ys') = xs'"
    using assms(3) by (auto simp: takeWhile_tail)
  ultimately show ?thesis
    using assms(1) by simp
qed

lemma video_id_inj_now: "video_id env = video_id env' \<Longrightarrow> now_id env = now_id env'"
proof -
  assume "video_id env = video_id env'"
  then have "string_of_nat (now_id env) @ CHR ''_'' # substr 2 9 (random36 env) =
             string_of_nat (now_id env') @ CHR ''_'' # substr 2 9 (random36 env')"
    by (simp add: video_id_def)
  then have "string_of_nat (now_id env) = string_of_nat (now_id env')"
    by (rule before_separator) (rule string_of_nat_no_underscore)+
  then show ?thesis
    by (rule string_of_nat_inj)
qed

lemma video_id_example: "video_id env_example = ''video_1704567950456_def456ghi''"
  by (simp add: video_id_def env_example_def substr_def string_of_nat.simps digit_eval)

section \<open>The service calls on the object store\<close>

lemma store_get_singleton: "store_get (id_v v) [v] = Some v"
  by (simp add: store_get_def)


lemma saveVideo_videos:
  "videos (snd (saveVideo b env svc)) =
     (case store_get (video_id env) (videos svc) of
        Some w \<Rightarrow> videos svc
      | None \<Rightarrow> videos svc @ [new_video b env])"
  by (simp add: saveVideo_eq split: option.splits)

lemma saveVideo_stores:
  assumes "store_get (video_id env) (videos svc) = None"
  shows "store_get (video_id env) (videos (snd (saveVideo P env svc))) =
    Some (new_video P env)"
proof -
  have "id_v (new_video P env) = video_id env"
    by (simp add: new_video_def)
  then have "store_get (video_id env) [new_video P env] = Some (new_video P env)"
    using store_get_singleton [of "new_video P env"] by simp
  with assms show ?thesis
    by (simp add: saveVideo_videos store_get_append)
qed

lemma saveVideo_present:
  "store_get (video_id env) (videos svc) = Some w \<Longrightarrow>
   saveVideo Q env svc = (Inl ConstraintError, ensure_db svc)"
  by (simp add: saveVideo_eq)

lemma markAsUploaded_videos:
  "videos (snd (markAsUploaded k svc)) =
     (case store_get k (videos svc) of
        None \<Rightarrow> videos svc
      | Some v \<Rightarrow> store_put (v\<lparr>uploaded := True\<rparr>) (videos svc))"
  by (simp add: markAsUploaded_eq split: option.splits)

lemma deleteVideo_videos:
  "videos (snd (deleteVideo k svc)) = store_delete k (videos svc)"
  by (simp add: deleteVideo_eq)

lemma read_only_videos:
  "videos (init svc) = videos svc"
  "videos (snd (getAllVideos svc)) = videos svc"
  "videos (snd (getVideo k svc)) = videos svc"
  by (simp_all add: init_def getAllVideos_def getVideo_eq Let_def)

lemmas exec_videos =
  saveVideo_videos markAsUploaded_videos deleteVideo_videos read_only_videos

lemma store_delete_absent: "store_get k vs = None \<Longrightarrow> store_delete k vs = vs"
  by (induction vs) (auto simp: store_get_def store_delete_def split: if_splits)

lemma store_delete_twice: "store_delete k (store_delete k vs) = store_delete k vs"
  by (simp add: store_delete_def)

lemma exec_keeps_record:
  assumes "store_get k (videos svc) = Some v"
    and "store_get k (videos (exec c svc)) = Some v'"
  shows "v' = v \<or> v' = v\<lparr>uploaded := True\<rparr>"
proof (cases c)
  case (SaveVideo b env)
  with assms show ?thesis
    by (auto simp: exec_videos store_get_append split: option.splits)
next
  case (MarkAsUploaded k2)
  show ?thesis
  proof (cases "store_get k2 (videos svc)")
    case None
    with assms MarkAsUploaded show ?thesis
      by (simp add: exec_videos)
  next
    case (Some w)
    then have "id_v w = k2"
      by (simp add: store_get_SomeD)
    with assms MarkAsUploaded Some show ?thesis
      by (auto simp: exec_videos store_get_put split: if_splits)
  qed
next
  case (DeleteVideo k2)
  with assms show ?thesis
    by (auto simp: exec_videos store_get_delete split: if_splits)
qed (use assms in \<open>simp_all add: exec_videos\<close>)

lemma exec_keeps_absent:
  assumes "store_get k (videos svc) = None"
    and "\<forall>b env. c = SaveVideo b env \<longrightarrow> video_id env \<noteq> k"
  shows "store_get k (videos (exec c svc)) = None"
proof (cases c)
  case (SaveVideo b env)
  with assms(2) have "video_id env \<noteq> k" by simp
  then have "store_get k [new_video b env] = None"
    by (simp add: store_get_def new_video_def)
  with assms(1) SaveVideo show ?thesis
    by (simp add: exec_videos store_get_append split: option.splits)
next
  case (MarkAsUploaded k2)
  show ?thesis
  proof (cases "store_get k2 (videos svc)")
    case None
    with assms MarkAsUploaded show ?thesis
      by (simp add: exec_videos)
  next
    case (Some w)
    then have "id_v w = k2"
      by (simp add: store_get_SomeD)
    with assms MarkAsUploaded Some show ?thesis
      by (auto simp: exec_videos store_get_put)
  qed
next
  case (DeleteVideo k2)
  with assms show ?thesis
    by (simp add: exec_videos store_get_delete)
qed (use assms in \<open>simp_all add: exec_videos\<close>)

lemma getVideo_example_absent:
  "fst (getVideo ''video_1704567950456_def456ghi'' svc_example) = None"
  by (simp add: getVideo_eq svc_example_def store_get_def)

lemma svc_example_videos: "videos svc_example = [video_example]"
  by (simp add: svc_example_def video_example_def)

lemma getVideo_example:
  "fst (getVideo ''video_1704567890123_abc123'' svc_example) = Some video_example"
  by (simp add: getVideo_eq svc_example_videos store_get_def) (simp add: video_example_def)

section \<open>Claims about the storage service\<close>

text \<open>
  Claim C3. For every id, \<open>markAsUploaded\<close> fails with \<open>NotFound\<close> (the error
  \<^verbatim>\<open>new Error('Video not found')\<close>) when the store holds no record with that id. When
  the record exists the first call succeeds, and a second call succeeds too, leaves the
  service exactly as the first call left it, and the record still has \<open>uploaded = True\<close>.
\<close>

theorem markAsUploaded_NotFound_idempotent:
  "(fst (getVideo k svc) = None \<longrightarrow> fst (markAsUploaded k svc) = Inl NotFound) \<and>
   (\<forall>v. fst (getVideo k svc) = Some v \<longrightarrow>
      (let svc1 = snd (markAsUploaded k svc); svc2 = snd (markAsUploaded k svc1)
       in fst (markAsUploaded k svc) = Inr () \<and>
          fst (markAsUploaded k svc1) = Inr () \<and>
          svc2 = svc1 \<and>
          fst (getVideo k svc1) = Some (v\<lparr>uploaded := True\<rparr>) \<and>
          fst (getVideo k svc2) = Some (v\<lparr>uploaded := True\<rparr>)))"
proof (intro conjI impI allI)
  assume "fst (getVideo k svc) = None"
  then show "fst (markAsUploaded k svc) = Inl NotFound"
    by (simp add: getVideo_eq markAsUploaded_eq)
next
  fix v
  assume "fst (getVideo k svc) = Some v"
  then have g: "store_get k (videos svc) = Some v"
    by (simp add: getVideo_eq)
  then have k: "id_v v = k"
    by (simp add: store_get_SomeD)
  let ?w = "v\<lparr>uploaded := True\<rparr>"
  let ?svc1 = "(ensure_db svc)\<lparr>videos := store_put ?w (videos svc)\<rparr>"
  have m1: "markAsUploaded k svc = (Inr (), ?svc1)"
    using g by (simp add: markAsUploaded_eq)
  have g1: "store_get k (videos ?svc1) = Some ?w"
    using k by (simp add: store_get_put)
  have m2: "markAsUploaded k ?svc1 = (Inr (), ?svc1)"
    using g1 by (simp add: markAsUploaded_eq store_put_twice)
  show "let svc1 = snd (markAsUploaded k svc); svc2 = snd (markAsUploaded k svc1)
       in fst (markAsUploaded k svc) = Inr () \<and>
          fst (markAsUploaded k svc1) = Inr () \<and>
          svc2 = svc1 \<and>
          fst (getVideo k svc1) = Some (v\<lparr>uploaded := True\<rparr>) \<and>
          fst (getVideo k svc2) = Some (v\<lparr>uploaded := True\<rparr>)"
    using g1 by (simp add: m1 m2 getVideo_eq Let_def)
qed



theorem markAsUploaded_NotFound_idempotent_witness:
  "fst (getVideo ''video_404'' svc_example) = None \<and>
   fst (markAsUploaded ''video_404'' svc_example) = Inl NotFound \<and>
   (\<exists>v. fst (getVideo ''video_1704567890123_abc123'' svc_example) = Some v \<and>
     (let svc1 = snd (markAsUploaded ''video_1704567890123_abc123'' svc_example);
          svc2 = snd (markAsUploaded ''video_1704567890123_abc123'' svc1)
      in fst (markAsUploaded ''video_1704567890123_abc123'' svc_example) = Inr () \<and>
         fst (markAsUploaded ''video_1704567890123_abc123'' svc1) = Inr () \<and>
         svc2 = svc1 \<and>
         fst (getVideo ''video_1704567890123_abc123'' svc1) = Some (v\<lparr>uploaded := True\<rparr>) \<and>
         fst (getVideo ''video_1704567890123_abc123'' svc2) = Some (v\<lparr>uploaded := True\<rparr>)))"
proof -
  have a: "fst (getVideo ''video_404'' svc_example) = None"
    by (simp add: getVideo_eq svc_example_def store_get_def)
  have b: "fst (getVideo ''video_1704567890123_abc123'' svc_example) = Some (hd (videos svc_example))"
    by (simp add: getVideo_eq svc_example_def store_get_def)
  from a b
    markAsUploaded_NotFound_idempotent [of "''video_404''" svc_example]
    markAsUploaded_NotFound_idempotent [of "''video_1704567890123_abc123''" svc_example]
  show ?thesis by blast
qed



text \<open>
  Claim C8, as the code has it: \<open>saveVideo\<close> does not check that the id it generates
  is fresh. A second call that reads the same \<^verbatim>\<open>Date.now()\<close> and draws the same random
  string generates the id of the first record; \<^verbatim>\<open>store.add\<close> then rejects with
  \<open>ConstraintError\<close>, no id is returned and nothing is persisted.
\<close>

theorem saveVideo_collision_counterexample:
  "fst (saveVideo blob_example env_example svc_example) =
     Inr ''video_1704567950456_def456ghi'' \<and>
   fst (saveVideo (Blob [7, 8] ''video/webm'') env_example
         (snd (saveVideo blob_example env_example svc_example))) = Inl ConstraintError \<and>
   videos (snd (saveVideo (Blob [7, 8] ''video/webm'') env_example
         (snd (saveVideo blob_example env_example svc_example)))) =
     videos (snd (saveVideo blob_example env_example svc_example))"
proof -
  have none: "store_get (video_id env_example) (videos svc_example) = None"
    by (simp add: video_id_example svc_example_def store_get_def)
  then have first: "fst (saveVideo blob_example env_example svc_example) =
      Inr ''video_1704567950456_def456ghi''"
    by (simp add: saveVideo_eq video_id_example)
  have present: "store_get (video_id env_example)
      (videos (snd (saveVideo blob_example env_example svc_example))) =
      Some (new_video blob_example env_example)"
    by (rule saveVideo_stores [OF none])
  from first saveVideo_present [OF present] show ?thesis
    by simp
qed

text \<open>
  Claim C8, amended. The id that \<open>saveVideo\<close> generates is \<open>video_\<close>, the decimal
  reading of \<^verbatim>\<open>Date.now()\<close>, an underscore and up to nine characters of the random
  string. When the store holds no record under that id, \<open>saveVideo\<close> returns it and
  persists under it a record with the payload, \<open>uploaded = False\<close> and the
  \<^verbatim>\<open>Date.now()\<close> read at creation as timestamp. When the store already holds a record
  under that id, \<open>saveVideo\<close> fails with \<open>ConstraintError\<close> and leaves the stored
  videos as they were. Ids generated at different times differ, whatever the random
  parts are.
\<close>

theorem saveVideo_creates_record:
  "video_id env =
     ''video_'' @ string_of_nat (now_id env) @ ''_'' @ take 9 (drop 2 (random36 env)) \<and>
   (fst (getVideo (video_id env) svc) = None \<longrightarrow>
      fst (saveVideo P env svc) = Inr (video_id env) \<and>
      fst (getVideo (video_id env) (snd (saveVideo P env svc))) =
        Some \<lparr> id_v = video_id env, blob = P, timestamp = now_timestamp env,
               uploaded = False,
               fileName = ''recording_'' @ takeWhile (\<lambda>c. c \<noteq> CHR ''T'') (isoString env)
                 @ ''.webm'' \<rparr>) \<and>
   (now_id env \<noteq> now_id env' \<longrightarrow> video_id env \<noteq> video_id env') \<and>
   (fst (getVideo (video_id env) svc) \<noteq> None \<longrightarrow>
      fst (saveVideo P env svc) = Inl ConstraintError \<and>
      videos (snd (saveVideo P env svc)) = videos svc)"
proof (intro conjI impI)
  show "video_id env =
     ''video_'' @ string_of_nat (now_id env) @ ''_'' @ take 9 (drop 2 (random36 env))"
    by (simp add: video_id_def substr_def)
next
  assume "fst (getVideo (video_id env) svc) = None"
  then have none: "store_get (video_id env) (videos svc) = None"
    by (simp add: getVideo_eq)
  then show "fst (saveVideo P env svc) = Inr (video_id env)"
    by (simp add: saveVideo_eq)
  have "id_v (new_video P env) = video_id env"
    by (simp add: new_video_def)
  then have "store_get (video_id env) [new_video P env] = Some (new_video P env)"
    using store_get_singleton [of "new_video P env"] by simp
  with none have "fst (getVideo (video_id env) (snd (saveVideo P env svc))) =
      Some (new_video P env)"
    by (simp add: saveVideo_eq getVideo_eq store_get_append)
  then show "fst (getVideo (video_id env) (snd (saveVideo P env svc))) =
        Some \<lparr> id_v = video_id env, blob = P, timestamp = now_timestamp env,
               uploaded = False,
               fileName = ''recording_'' @ takeWhile (\<lambda>c. c \<noteq> CHR ''T'') (isoString env)
                 @ ''.webm'' \<rparr>"
    by (simp add: new_video_def split_first_def)
next
  assume "now_id env \<noteq> now_id env'"
  then show "video_id env \<noteq> video_id env'"
    using video_id_inj_now by blast
next
  assume "fst (getVideo (video_id env) svc) \<noteq> None"
  then obtain w where w: "store_get (video_id env) (videos svc) = Some w"
    by (auto simp: getVideo_eq)
  show "fst (saveVideo P env svc) = Inl ConstraintError"
    by (simp add: saveVideo_present [OF w])
  show "videos (snd (saveVideo P env svc)) = videos svc"
    by (simp add: saveVideo_present [OF w])
qed

theorem saveVideo_creates_record_witness:
  "fst (getVideo (video_id env_example) svc_example) = None \<and>
   fst (saveVideo (Blob [7, 8] ''video/webm'') env_example svc_example) =
     Inr ''video_1704567950456_def456ghi'' \<and>
   fst (getVideo ''video_1704567950456_def456ghi''
         (snd (saveVideo (Blob [7, 8] ''video/webm'') env_example svc_example))) =
     Some \<lparr> id_v = ''video_1704567950456_def456ghi'', blob = Blob [7, 8] ''video/webm'',
            timestamp = 1704567950457, uploaded = False,
            fileName = ''recording_2024-01-06.webm'' \<rparr> \<and>
   now_id env_example \<noteq> now_id (env_example\<lparr>now_id := 1704567950999\<rparr>) \<and>
   video_id env_example \<noteq> video_id (env_example\<lparr>now_id := 1704567950999\<rparr>) \<and>
   fst (getVideo (video_id env_example)
         (snd (saveVideo blob_example env_example svc_example))) \<noteq> None \<and>
   fst (saveVideo (Blob [7, 8] ''video/webm'') env_example
         (snd (saveVideo blob_example env_example svc_example))) = Inl ConstraintError \<and>
   videos (snd (saveVideo (Blob [7, 8] ''video/webm'') env_example
         (snd (saveVideo blob_example env_example svc_example)))) =
     videos (snd (saveVideo blob_example env_example svc_example))"
proof -
  note t = saveVideo_creates_record [of env_example svc_example "Blob [7, 8] ''video/webm''"
      "env_example\<lparr>now_id := 1704567950999\<rparr>"]
  note t2 = saveVideo_creates_record
      [of env_example "snd (saveVideo blob_example env_example svc_example)"
        "Blob [7, 8] ''video/webm''" env_example]
  have a: "fst (getVideo (video_id env_example) svc_example) = None"
    by (simp add: video_id_example getVideo_example_absent)
  have b: "now_id env_example \<noteq> now_id (env_example\<lparr>now_id := 1704567950999\<rparr>)"
    by (simp add: env_example_def)
  have c: "now_timestamp env_example = 1704567950457"
    "takeWhile (\<lambda>c. c \<noteq> CHR ''T'') (isoString env_example) = ''2024-01-06''"
    by (simp_all add: env_example_def)
  have none: "store_get (video_id env_example) (videos svc_example) = None"
    using a by (simp add: getVideo_eq)
  have p: "fst (getVideo (video_id env_example)
         (snd (saveVideo blob_example env_example svc_example))) \<noteq> None"
    by (simp add: getVideo_eq saveVideo_stores [OF none])
  note r1 = t [THEN conjunct2, THEN conjunct1, THEN mp, OF a, THEN conjunct1]
  note r2 = t [THEN conjunct2, THEN conjunct1, THEN mp, OF a, THEN conjunct2]
  note r3 = t [THEN conjunct2, THEN conjunct2, THEN conjunct1, THEN mp, OF b]
  note r4 = t2 [THEN conjunct2, THEN conjunct2, THEN conjunct2, THEN mp, OF p, THEN conjunct1]
  note r5 = t2 [THEN conjunct2, THEN conjunct2, THEN conjunct2, THEN mp, OF p, THEN conjunct2]
  have s: "fst (saveVideo (Blob [7, 8] ''video/webm'') env_example svc_example) =
     Inr ''video_1704567950456_def456ghi''"
    using r1 by (simp only: video_id_example)
  have g: "fst (getVideo ''video_1704567950456_def456ghi''
         (snd (saveVideo (Blob [7, 8] ''video/webm'') env_example svc_example))) =
     Some \<lparr> id_v = ''video_1704567950456_def456ghi'', blob = Blob [7, 8] ''video/webm'',
            timestamp = 1704567950457, uploaded = False,
            fileName = ''recording_2024-01-06.webm'' \<rparr>"
    using r2 by (simp add: video_id_example c)
  from a s g b r3 p r4 r5 show ?thesis
    by - (intro conjI, assumption+)
qed

text \<open>
  Claim C4, as the code has it: no id makes \<open>deleteVideo\<close> fail. At an id that the
  store does not hold, it returns normally and leaves the stored videos as they were,
  where the claim asks for \<open>NotFound\<close>.
\<close>

theorem deleteVideo_NotFound_counterexample:
  "fst (getVideo ''video_404'' svc_example) = None \<and>
   fst (deleteVideo ''video_404'' svc_example) = Inr () \<and>
   fst (deleteVideo ''video_404'' svc_example) \<noteq> Inl NotFound \<and>
   videos (snd (deleteVideo ''video_404'' svc_example)) = videos svc_example"
  by (simp add: getVideo_eq deleteVideo_eq svc_example_def store_get_def store_delete_def)

text \<open>
  Claim C4, amended. For every id, \<open>deleteVideo\<close> returns without error and afterwards
  \<open>getVideo\<close> of the id yields nothing, while every other id reads as before. When the
  id is absent the call is a silent no-op on the stored videos, so deleting a second time
  changes nothing and raises nothing. The record does not come back: after the deletion,
  whichever call of the service follows, the id stays absent, unless that call is a
  \<open>saveVideo\<close> that generates this very id again.
\<close>

theorem deleteVideo_removes_silently:
  "fst (deleteVideo k svc) = Inr () \<and>
   fst (getVideo k (snd (deleteVideo k svc))) = None \<and>
   (\<forall>k'. k' \<noteq> k \<longrightarrow>
      fst (getVideo k' (snd (deleteVideo k svc))) = fst (getVideo k' svc)) \<and>
   (fst (getVideo k svc) = None \<longrightarrow> videos (snd (deleteVideo k svc)) = videos svc) \<and>
   deleteVideo k (snd (deleteVideo k svc)) = (Inr (), snd (deleteVideo k svc)) \<and>
   (\<forall>c. (\<forall>b env. c = SaveVideo b env \<longrightarrow> video_id env \<noteq> k) \<longrightarrow>
      fst (getVideo k (exec c (snd (deleteVideo k svc)))) = None)"
proof (intro conjI allI impI)
  show "fst (deleteVideo k svc) = Inr ()"
    by (simp add: deleteVideo_eq)
  show gone: "fst (getVideo k (snd (deleteVideo k svc))) = None"
    by (simp add: getVideo_eq deleteVideo_eq store_get_delete)
  show "deleteVideo k (snd (deleteVideo k svc)) = (Inr (), snd (deleteVideo k svc))"
    by (simp add: deleteVideo_eq store_delete_twice)
  show "fst (getVideo k' (snd (deleteVideo k svc))) = fst (getVideo k' svc)"
    if "k' \<noteq> k" for k'
    using that by (simp add: getVideo_eq deleteVideo_eq store_get_delete)
  show "videos (snd (deleteVideo k svc)) = videos svc"
    if "fst (getVideo k svc) = None"
    using that by (simp add: getVideo_eq deleteVideo_eq store_delete_absent)
  show "fst (getVideo k (exec c (snd (deleteVideo k svc)))) = None"
    if "\<forall>b env. c = SaveVideo b env \<longrightarrow> video_id env \<noteq> k" for c
  proof -
    from gone have "store_get k (videos (snd (deleteVideo k svc))) = None"
      by (simp add: getVideo_eq)
    then have "store_get k (videos (exec c (snd (deleteVideo k svc)))) = None"
      using that by (rule exec_keeps_absent)
    then show ?thesis
      by (simp add: getVideo_eq)
  qed
qed

theorem deleteVideo_removes_silently_witness:
  "fst (getVideo ''video_1704567890123_abc123'' svc_example) \<noteq> None \<and>
   fst (deleteVideo ''video_1704567890123_abc123'' svc_example) = Inr () \<and>
   fst (getVideo ''video_1704567890123_abc123''
         (snd (deleteVideo ''video_1704567890123_abc123'' svc_example))) = None \<and>
   fst (getVideo ''video_404'' svc_example) = None \<and>
   videos (snd (deleteVideo ''video_404'' svc_example)) = videos svc_example \<and>
   fst (getVideo ''video_1704567890123_abc123''
         (snd (deleteVideo ''video_404'' svc_example))) =
     fst (getVideo ''video_1704567890123_abc123'' svc_example) \<and>
   fst (getVideo ''video_1704567890123_abc123''
         (exec (MarkAsUploaded ''video_1704567890123_abc123'')
           (snd (deleteVideo ''video_1704567890123_abc123'' svc_example)))) = None"
proof -
  note t1 = deleteVideo_removes_silently [of "''video_1704567890123_abc123''" svc_example]
  note t2 = deleteVideo_removes_silently [of "''video_404''" svc_example]
  have a: "fst (getVideo ''video_1704567890123_abc123'' svc_example) \<noteq> None"
    by (simp add: getVideo_eq svc_example_def store_get_def)
  have b: "fst (getVideo ''video_404'' svc_example) = None"
    by (simp add: getVideo_eq svc_example_def store_get_def)
  have c: "''video_1704567890123_abc123'' \<noteq> ''video_404''"
    by simp
  have d: "\<forall>b env. MarkAsUploaded ''video_1704567890123_abc123'' = SaveVideo b env \<longrightarrow>
      video_id env \<noteq> ''video_1704567890123_abc123''"
    by simp
  note r1 = t1 [THEN conjunct1]
  note r2 = t1 [THEN conjunct2, THEN conjunct1]
  note r3 = t2 [THEN conjunct2, THEN conjunct2, THEN conjunct1, THEN spec, THEN mp, OF c]
  note r4 = t2 [THEN conjunct2, THEN conjunct2, THEN conjunct2, THEN conjunct1, THEN mp, OF b]
  note r5 = t1 [THEN conjunct2, THEN conjunct2, THEN conjunct2, THEN conjunct2, THEN conjunct2,
    THEN spec, THEN mp, OF d]
  from a r1 r2 b r4 r3 r5 show ?thesis
    by - (intro conjI, assumption+)
qed

text \<open>
  Claim C9. For a record stored under an id, every call of the storage service that
  leaves a record under that id leaves one with the same id, blob, timestamp and file
  name, and with \<open>uploaded\<close> still true if it was true. In particular
  \<open>markAsUploaded\<close> succeeds, writes back the record it read with only \<open>uploaded\<close>
  set to true, and leaves the records under other ids as they were.
\<close>

theorem store_calls_preserve_record:
  assumes "fst (getVideo k svc) = Some v"
  shows "(\<forall>c v'. fst (getVideo k (exec c svc)) = Some v' \<longrightarrow>
            id_v v' = id_v v \<and> blob v' = blob v \<and> timestamp v' = timestamp v \<and>
            fileName v' = fileName v \<and> (uploaded v \<longrightarrow> uploaded v')) \<and>
         fst (markAsUploaded k svc) = Inr () \<and>
         fst (getVideo k (snd (markAsUploaded k svc))) = Some (v\<lparr>uploaded := True\<rparr>) \<and>
         (\<forall>k'. k' \<noteq> k \<longrightarrow>
            fst (getVideo k' (snd (markAsUploaded k svc))) = fst (getVideo k' svc))"
proof (intro conjI allI impI)
  from assms have g: "store_get k (videos svc) = Some v"
    by (simp add: getVideo_eq)
  then have k: "id_v v = k"
    by (simp add: store_get_SomeD)
  show "fst (markAsUploaded k svc) = Inr ()"
    using g by (simp add: markAsUploaded_eq)
  show "fst (getVideo k (snd (markAsUploaded k svc))) = Some (v\<lparr>uploaded := True\<rparr>)"
    using g k by (simp add: getVideo_eq markAsUploaded_videos store_get_put)
  show "fst (getVideo k' (snd (markAsUploaded k svc))) = fst (getVideo k' svc)"
    if "k' \<noteq> k" for k'
    using g k that by (simp add: getVideo_eq markAsUploaded_videos store_get_put)
  fix c v'
  assume "fst (getVideo k (exec c svc)) = Some v'"
  then have "store_get k (videos (exec c svc)) = Some v'"
    by (simp add: getVideo_eq)
  with g have v': "v' = v \<or> v' = v\<lparr>uploaded := True\<rparr>"
    by (rule exec_keeps_record)
  from v' show "id_v v' = id_v v" by auto
  from v' show "blob v' = blob v" by auto
  from v' show "timestamp v' = timestamp v" by auto
  from v' show "fileName v' = fileName v" by auto
  from v' show "uploaded v'" if "uploaded v" using that by auto
qed

theorem store_calls_preserve_record_witness:
  "fst (getVideo ''video_1704567890123_abc123'' svc_example) = Some video_example \<and>
   fst (markAsUploaded ''video_1704567890123_abc123'' svc_example) = Inr () \<and>
   fst (getVideo ''video_1704567890123_abc123''
         (exec (MarkAsUploaded ''video_1704567890123_abc123'') svc_example)) =
     Some (video_example\<lparr>uploaded := True\<rparr>) \<and>
   blob (video_example\<lparr>uploaded := True\<rparr>) = blob video_example \<and>
   uploaded (video_example\<lparr>uploaded := True\<rparr>) \<and>
   (\<exists>v'. fst (getVideo ''video_1704567890123_abc123''
           (exec (MarkAsUploaded ''video_1704567890123_abc123'')
             (exec (MarkAsUploaded ''video_1704567890123_abc123'') svc_example))) = Some v' \<and>
         uploaded v')"
proof -
  note t = store_calls_preserve_record [OF getVideo_example]
  note r1 = t [THEN conjunct2, THEN conjunct1]
  note r2 = t [THEN conjunct2, THEN conjunct2, THEN conjunct1]
  have e: "fst (getVideo ''video_1704567890123_abc123''
         (exec (MarkAsUploaded ''video_1704567890123_abc123'') svc_example)) =
     Some (video_example\<lparr>uploaded := True\<rparr>)"
    using r2 by (simp only: exec.simps)
  note r3 = t [THEN conjunct1, THEN spec, THEN spec, THEN mp, OF e]
  note r4 = r3 [THEN conjunct2, THEN conjunct1]
  note t' = store_calls_preserve_record [OF e]
  have e2: "fst (getVideo ''video_1704567890123_abc123''
           (exec (MarkAsUploaded ''video_1704567890123_abc123'')
             (exec (MarkAsUploaded ''video_1704567890123_abc123'') svc_example))) =
      Some ((video_example\<lparr>uploaded := True\<rparr>)\<lparr>uploaded := True\<rparr>)"
    using t' [THEN conjunct2, THEN conjunct2, THEN conjunct1] by (simp only: exec.simps)
  note r5 = t' [THEN conjunct1, THEN spec, THEN spec, THEN mp, OF e2,
    THEN conjunct2, THEN conjunct2, THEN conjunct2, THEN conjunct2]
  have u: "uploaded (video_example\<lparr>uploaded := True\<rparr>)"
    by simp
  from r5 u have u2: "uploaded ((video_example\<lparr>uploaded := True\<rparr>)\<lparr>uploaded := True\<rparr>)"
    by (rule mp)
  from e2 u2 have ex: "\<exists>v'. fst (getVideo ''video_1704567890123_abc123''
           (exec (MarkAsUploaded ''video_1704567890123_abc123'')
             (exec (MarkAsUploaded ''video_1704567890123_abc123'') svc_example))) = Some v' \<and>
         uploaded v'"
    by - (rule exI, rule conjI, assumption+)
  from getVideo_example r1 e r4 u ex show ?thesis
    by - (intro conjI, assumption+)
qed

section \<open>The strategies as sequences of notifications\<close>

text \<open>
  Each strategy unrolls to a fixed list of notifications followed by its result; the
  callback, whatever it is, is called on that list in order.
\<close>

lemma notify_all_simps [simp]:
  "notify_all obs [] s = s"
  "notify_all obs (p # ps) s = notify_all obs ps (notify obs p s)"
  by (simp_all add: notify_all_def)

lemma notify_all_append:
  "notify_all obs (ps @ qs) s = notify_all obs qs (notify_all obs ps s)"
  by (simp add: notify_all_def)

lemma notify_all_record: "notify_all (Some record_progress) ps tr = tr @ ps"
  by (induction ps arbitrary: tr) (simp_all add: notify_def record_progress_def)

lemma notify_all_setUploadProgress:
  "ps \<noteq> [] \<Longrightarrow> notify_all (Some setUploadProgress) ps st = st\<lparr>uploadProgress := last ps\<rparr>"
proof (induction ps arbitrary: st)
  case Nil
  then show ?case by simp
next
  case (Cons p ps)
  show ?case
  proof (cases "ps = []")
    case True
    then show ?thesis
      by (simp add: notify_def setUploadProgress_def)
  next
    case False
    with Cons.IH [of "notify (Some setUploadProgress) p st"] show ?thesis
      by (simp add: notify_def setUploadProgress_def)
  qed
qed

lemma mock_loop_step:
  "i \<le> 100 \<Longrightarrow>
   mock_loop i obs s = mock_loop (i + 10) obs (notify obs (uploading_at i) s)"
  by (subst mock_loop.simps) (simp add: uploading_at_def)

lemma mock_loop_stop: "\<not> i \<le> 100 \<Longrightarrow> mock_loop i obs s = s"
  by (subst mock_loop.simps) simp

lemma mock_loop_0:
  "mock_loop 0 obs s =
     notify_all obs (map uploading_at [0, 10, 20, 30, 40, 50, 60, 70, 80, 90, 100]) s"
  by (simp add: mock_loop_step mock_loop_stop)

lemma force_fail_loop_step:
  "i \<le> 60 \<Longrightarrow>
   force_fail_loop i obs s = force_fail_loop (i + 20) obs (notify obs (uploading_at i) s)"
  by (subst force_fail_loop.simps) (simp add: uploading_at_def)

lemma force_fail_loop_stop: "\<not> i \<le> 60 \<Longrightarrow> force_fail_loop i obs s = s"
  by (subst force_fail_loop.simps) simp

lemma force_fail_loop_0:
  "force_fail_loop 0 obs s = notify_all obs (map uploading_at [0, 20, 40, 60]) s"
  by (simp add: force_fail_loop_step force_fail_loop_stop)

lemma mockUpload_eq:
  "mockUpload b env obs s =
     (if random env > double_0_3 then
        (\<lparr> success = True, result_message = ''Video uploaded successfully'',
            uploadedUrl = Some (''https://mock-cdn.example.com/videos/'' @
              string_of_nat (now env) @ ''.webm'') \<rparr>,
         notify_all obs
           (map uploading_at [0, 10, 20, 30, 40, 50, 60, 70, 80, 90, 100] @
            [\<lparr> status = Success, progress = 100, message = ''Upload successful!'' \<rparr>]) s)
      else
        (\<lparr> success = False, result_message = ''Upload failed - Network error simulated'',
            uploadedUrl = None \<rparr>,
         notify_all obs
           (map uploading_at [0, 10, 20, 30, 40, 50, 60, 70, 80, 90, 100] @
            [\<lparr> status = Failed, progress = 0,
               message = ''Upload failed - Network error'' \<rparr>]) s))"
  by (simp add: mockUpload_def mock_loop_0 Let_def)

lemma forceFailUpload_eq:
  "forceFailUpload obs s =
     (\<lparr> success = False, result_message = ''Network connection lost - Upload failed'',
         uploadedUrl = None \<rparr>,
      notify_all obs
        (map uploading_at [0, 20, 40, 60] @
         [\<lparr> status = Failed, progress = 0, message = ''Network connection lost'' \<rparr>]) s)"
  by (simp add: forceFailUpload_def force_fail_loop_0 Let_def)

lemma realUpload_eq:
  "realUpload b env obs s =
     (let sending = \<lparr> status = Uploading, progress = 50,
                        message = ''Uploading to server...'' \<rparr>;
          done = \<lparr> status = Success, progress = 100, message = ''Upload successful!'' \<rparr>;
          failed = (\<lambda>e ps.
            (let m = ''Upload failed: '' @
                   (case e of JsError t \<Rightarrow> t | JsOther \<Rightarrow> ''Unknown error occurred'')
             in (\<lparr> success = False, result_message = m, uploadedUrl = None \<rparr>,
                 notify_all obs (ps @ [\<lparr> status = Failed, progress = 0, message = m \<rparr>]) s)))
      in case fetch env of
           FetchRejected e \<Rightarrow> failed e [sending]
         | Response ok code statusText body \<Rightarrow>
             if \<not> ok then
               failed (JsError (''HTTP '' @ string_of_nat code @ '': '' @ statusText)) [sending]
             else
               (case body of
                  Inl e \<Rightarrow> failed e [sending]
                | Inr JsonNull \<Rightarrow> failed (JsError (null_property_message env)) [sending, done]
                | Inr (JsonValue url) \<Rightarrow>
                    (\<lparr> success = True, result_message = ''Video uploaded successfully'',
                        uploadedUrl = url \<rparr>,
                     notify_all obs [sending, done] s)))"
  by (simp add: realUpload_def realUpload_try_def Let_def
      split: fetch_result.splits sum.splits json_value.splits js_exn.splits)

lemma notify_record: "notify (Some record_progress) p tr = tr @ [p]"
  by (simp add: notify_def record_progress_def)

lemma upload_by_mode_observer:
  "upload_by_mode m b env obs s =
     (outcome m b env, notify_all obs (notifications m b env) s)"
proof (cases m)
  case Mock
  then show ?thesis
    by (simp add: upload_by_mode_def outcome_def notifications_def mockUpload_eq
        notify_all_record notify_all_append del: notify_all_simps)
next
  case Real
  then show ?thesis
    by (simp add: upload_by_mode_def outcome_def notifications_def realUpload_eq
        notify_all_record notify_record Let_def
        split: fetch_result.splits sum.splits json_value.splits js_exn.splits)
next
  case ForceFail
  then show ?thesis
    by (simp add: upload_by_mode_def outcome_def notifications_def forceFailUpload_eq
        notify_all_record notify_all_append del: notify_all_simps)
qed

lemma notifications_eq:
  "notifications m b env = snd (upload_by_mode m b env (Some record_progress) [])"
  "outcome m b env = fst (upload_by_mode m b env (Some record_progress) [])"
  by (simp_all add: notifications_def outcome_def)

lemma notifications_Mock:
  "notifications Mock b env =
     map uploading_at [0, 10, 20, 30, 40, 50, 60, 70, 80, 90, 100] @
     [if random env > double_0_3
      then \<lparr> status = Success, progress = 100, message = ''Upload successful!'' \<rparr>
      else \<lparr> status = Failed, progress = 0, message = ''Upload failed - Network error'' \<rparr>]"
  by (simp add: notifications_def upload_by_mode_def mockUpload_eq notify_all_record
      del: notify_all_simps)

lemma outcome_Mock: "success (outcome Mock b env) = (random env > double_0_3)"
  by (simp add: outcome_def upload_by_mode_def mockUpload_eq)

lemma notifications_ForceFail:
  "notifications ForceFail b env =
     [uploading_at 0, uploading_at 20, uploading_at 40, uploading_at 60,
      \<lparr> status = Failed, progress = 0, message = ''Network connection lost'' \<rparr>]"
  by (simp add: notifications_def upload_by_mode_def forceFailUpload_eq notify_all_record
      del: notify_all_simps)

lemma outcome_ForceFail:
  "outcome ForceFail b env =
     \<lparr> success = False, result_message = ''Network connection lost - Upload failed'',
       uploadedUrl = None \<rparr>"
  by (simp add: outcome_def upload_by_mode_def forceFailUpload_eq)

lemma Real_rejected:
  "fetch env = FetchRejected e \<Longrightarrow>
   notifications Real b env =
     [\<lparr> status = Uploading, progress = 50, message = ''Uploading to server...'' \<rparr>,
      \<lparr> status = Failed, progress = 0,
        message = ''Upload failed: '' @
          (case e of JsError t \<Rightarrow> t | JsOther \<Rightarrow> ''Unknown error occurred'') \<rparr>] \<and>
   \<not> success (outcome Real b env)"
  by (simp add: notifications_def outcome_def upload_by_mode_def realUpload_eq
      notify_all_record notify_record Let_def)

lemma Real_not_ok:
  "fetch env = Response False code reason body \<Longrightarrow>
   notifications Real b env =
     [\<lparr> status = Uploading, progress = 50, message = ''Uploading to server...'' \<rparr>,
      \<lparr> status = Failed, progress = 0,
        message = ''Upload failed: HTTP '' @ string_of_nat code @ '': '' @ reason \<rparr>] \<and>
   \<not> success (outcome Real b env)"
  by (simp add: notifications_def outcome_def upload_by_mode_def realUpload_eq
      notify_all_record notify_record Let_def)

lemma Real_bad_json:
  "fetch env = Response True code reason (Inl e) \<Longrightarrow>
   notifications Real b env =
     [\<lparr> status = Uploading, progress = 50, message = ''Uploading to server...'' \<rparr>,
      \<lparr> status = Failed, progress = 0,
        message = ''Upload failed: '' @
          (case e of JsError t \<Rightarrow> t | JsOther \<Rightarrow> ''Unknown error occurred'') \<rparr>] \<and>
   \<not> success (outcome Real b env)"
  by (simp add: notifications_def outcome_def upload_by_mode_def realUpload_eq
      notify_all_record notify_record Let_def)

lemma Real_null:
  "fetch env = Response True code reason (Inr JsonNull) \<Longrightarrow>
   notifications Real b env =
     [\<lparr> status = Uploading, progress = 50, message = ''Uploading to server...'' \<rparr>,
      \<lparr> status = Success, progress = 100, message = ''Upload successful!'' \<rparr>,
      \<lparr> status = Failed, progress = 0,
        message = ''Upload failed: '' @ null_property_message env \<rparr>] \<and>
   \<not> success (outcome Real b env)"
  by (simp add: notifications_def outcome_def upload_by_mode_def realUpload_eq
      notify_all_record notify_record Let_def)

lemma Real_value:
  "fetch env = Response True code reason (Inr (JsonValue url)) \<Longrightarrow>
   notifications Real b env =
     [\<lparr> status = Uploading, progress = 50, message = ''Uploading to server...'' \<rparr>,
      \<lparr> status = Success, progress = 100, message = ''Upload successful!'' \<rparr>] \<and>
   outcome Real b env =
     \<lparr> success = True, result_message = ''Video uploaded successfully'', uploadedUrl = url \<rparr>"
  by (simp add: notifications_def outcome_def upload_by_mode_def realUpload_eq
      notify_all_record notify_record Let_def)

lemma fetch_cases:
  obtains (rejected) e where "fetch env = FetchRejected e"
  | (not_ok) code reason body where "fetch env = Response False code reason body"
  | (bad_json) code reason e where "fetch env = Response True code reason (Inl e)"
  | (null_body) code reason where "fetch env = Response True code reason (Inr JsonNull)"
  | (json_value) code reason url where "fetch env = Response True code reason (Inr (JsonValue url))"
proof (cases "fetch env")
  case (FetchRejected e)
  then show ?thesis by (rule rejected)
next
  case (Response ok code reason body)
  show ?thesis
  proof (cases ok)
    case False
    with Response show ?thesis by (auto intro: not_ok)
  next
    case True
    show ?thesis
    proof (cases body)
      case (Inl e)
      with Response True show ?thesis by (auto intro: bad_json)
    next
      case (Inr r)
      with Response True show ?thesis by (cases r) (auto intro: null_body json_value)
    qed
  qed
qed

lemma uploading_at_simps [simp]:
  "status (uploading_at i) = Uploading" "progress (uploading_at i) = i"
  by (simp_all add: uploading_at_def)

lemma notifications_shape:
  "notifications m b env \<noteq> [] \<and>
   sorted (map progress (butlast (notifications m b env))) \<and>
   terminal (last (notifications m b env)) \<and>
   progress (last (notifications m b env)) =
     (if status (last (notifications m b env)) = Success then 100 else 0) \<and>
   (status (last (notifications m b env)) = Success) = success (outcome m b env) \<and>
   sorted (map progress (notifications m b env)) = success (outcome m b env)"
proof (cases m)
  case Mock
  then show ?thesis
    by (simp add: notifications_Mock outcome_Mock terminal_def)
next
  case ForceFail
  then show ?thesis
    by (simp add: notifications_ForceFail outcome_ForceFail terminal_def)
next
  case Real
  show ?thesis
  proof (cases env rule: fetch_cases)
    case (rejected e)
    from Real_rejected [OF this, of b] show ?thesis
      unfolding Real by (simp add: terminal_def)
  next
    case (not_ok code reason body)
    from Real_not_ok [OF this, of b] show ?thesis
      unfolding Real by (simp add: terminal_def)
  next
    case (bad_json code reason e)
    from Real_bad_json [OF this, of b] show ?thesis
      unfolding Real by (simp add: terminal_def)
  next
    case (null_body code reason)
    from Real_null [OF this, of b] show ?thesis
      unfolding Real by (simp add: terminal_def)
  next
    case (json_value code reason url)
    from Real_value [OF this, of b] show ?thesis
      unfolding Real by (simp add: terminal_def)
  qed
qed

lemma terminal_once:
  assumes "m = Real \<Longrightarrow> \<forall>code reason. fetch env \<noteq> Response True code reason (Inr JsonNull)"
  shows "length (filter terminal (notifications m b env)) = 1"
proof (cases m)
  case Mock
  then show ?thesis
    by (simp add: notifications_Mock terminal_def)
next
  case ForceFail
  then show ?thesis
    by (simp add: notifications_ForceFail terminal_def)
next
  case Real
  show ?thesis
  proof (cases env rule: fetch_cases)
    case (rejected e)
    from Real_rejected [OF this, of b] show ?thesis
      unfolding Real by (simp add: terminal_def)
  next
    case (not_ok code reason body)
    from Real_not_ok [OF this, of b] show ?thesis
      unfolding Real by (simp add: terminal_def)
  next
    case (bad_json code reason e)
    from Real_bad_json [OF this, of b] show ?thesis
      unfolding Real by (simp add: terminal_def)
  next
    case (null_body code reason)
    with assms Real show ?thesis by simp
  next
    case (json_value code reason url)
    from Real_value [OF this, of b] show ?thesis
      unfolding Real by (simp add: terminal_def)
  qed
qed

lemma terminal_last_matches_outcome:
  "terminal (last (notifications m b env)) \<and>
   (status (last (notifications m b env)) = Success) = success (outcome m b env)"
  using notifications_shape [of m b env] by simp

section \<open>The coordinator\<close>

lemma handleUpload_eq:
  "handleUpload k b env st =
     (let st2 = st\<lparr>uploadProgress := last (notifications (uploadMode st) b env)\<rparr>
      in if success (outcome (uploadMode st) b env) then
           (case markAsUploaded k (storage st) of
              (Inl e, svc) \<Rightarrow> (Inl e, st2\<lparr>storage := svc\<rparr>)
            | (Inr u, svc) \<Rightarrow>
                (Inr (), schedule_reset (loadStoredVideos (st2\<lparr>storage := svc\<rparr>))))
         else (Inr (), schedule_reset st2))"
proof -
  have ne: "notifications (uploadMode st) b env \<noteq> []"
    using notifications_shape [of "uploadMode st" b env] by simp
  obtain r svc where m: "markAsUploaded k (storage st) = (r, svc)"
    by (cases "markAsUploaded k (storage st)")
  show ?thesis
    by (cases r)
      (simp_all add: handleUpload_def upload_by_mode_observer setUploadProgress_def
        notify_all_setUploadProgress [OF ne] Let_def m)
qed

lemma handleUpload_failure:
  "\<not> success (outcome (uploadMode st) b env) \<Longrightarrow>
   handleUpload k b env st =
     (Inr (), st\<lparr>uploadProgress := last (notifications (uploadMode st) b env),
                 pendingResets := pendingResets st + 1\<rparr>)"
  by (simp add: handleUpload_eq schedule_reset_def Let_def)

lemma handleUpload_storage:
  "storage (snd (handleUpload k b env st)) =
     (if success (outcome (uploadMode st) b env)
      then snd (markAsUploaded k (storage st)) else storage st)"
  by (simp add: handleUpload_eq schedule_reset_def loadStoredVideos_def getAllVideos_def
      markAsUploaded_eq Let_def split: option.splits)

lemma handleUpload_success:
  assumes "success (outcome (uploadMode st) b env)"
    and "store_get k (videos (storage st)) = Some v"
  shows "fst (handleUpload k b env st) = Inr ()"
    and "fst (getVideo k (storage (snd (handleUpload k b env st)))) =
      Some (v\<lparr>uploaded := True\<rparr>)"
proof -
  from assms(2) have k: "id_v v = k"
    by (simp add: store_get_SomeD)
  from assms show "fst (handleUpload k b env st) = Inr ()"
    by (simp add: handleUpload_eq markAsUploaded_eq Let_def)
  from assms k show "fst (getVideo k (storage (snd (handleUpload k b env st)))) =
      Some (v\<lparr>uploaded := True\<rparr>)"
    by (simp add: handleUpload_storage getVideo_eq markAsUploaded_videos store_get_put)
qed

lemma handleUpload_progress:
  "uploadProgress (snd (handleUpload k b env st)) = last (notifications (uploadMode st) b env)"
  by (simp add: handleUpload_eq schedule_reset_def loadStoredVideos_def getAllVideos_def
      markAsUploaded_eq Let_def split: option.splits)

lemma handleUpload_absent:
  assumes "store_get k (videos (storage st)) = None"
  shows "fst (handleUpload k b env st) =
      (if success (outcome (uploadMode st) b env) then Inl NotFound else Inr ())"
    and "videos (storage (snd (handleUpload k b env st))) = videos (storage st)"
  using assms
  by (simp_all add: handleUpload_eq schedule_reset_def markAsUploaded_eq Let_def)

lemma outcome_Mock_example: "success (outcome Mock blob_example upload_env_example)"
  by (simp add: outcome_Mock upload_env_example_def double_0_3_def)

lemma notifications_Mock_example:
  "last (notifications Mock blob_example upload_env_example) =
     \<lparr> status = Success, progress = 100, message = ''Upload successful!'' \<rparr>"
  by (simp add: notifications_Mock upload_env_example_def double_0_3_def)

lemma page_example_simps:
  "storage page_example = svc_example" "uploadMode page_example = ForceFail"
  by (simp_all add: page_example_def)

lemma getVideo_example_404: "fst (getVideo ''video_404'' svc_example) = None"
  by (simp add: getVideo_eq svc_example_def store_get_def)

section \<open>Claims about the upload strategies\<close>

text \<open>
  Claim C6, as the code has it: the forced failure notifies 0, 20, 40 and 60 percent and
  then its terminal notification, \<open>Failed\<close> with 0 percent, so the percent values are
  not non-decreasing up to and including the terminal notification.
\<close>

theorem forceFail_progress_drops_counterexample:
  "map progress (notifications ForceFail blob_example upload_env_example) = [0, 20, 40, 60, 0] \<and>
   status (last (notifications ForceFail blob_example upload_env_example)) = Failed \<and>
   \<not> sorted (map progress (notifications ForceFail blob_example upload_env_example))"
  by (simp add: notifications_ForceFail)

text \<open>
  Claim C6, amended. Within one upload call, for every strategy and every callback, the
  callback receives the notifications one by one in the order in which the strategy makes
  them. Their percent values are non-decreasing up to but excluding the last one; the
  last one is terminal and carries 100 percent when it reports success and 0 percent when
  it reports failure. So the whole sequence is non-decreasing exactly when the upload
  succeeds.
\<close>

theorem progress_monotone_before_terminal:
  "snd (upload_by_mode m b env obs s) = notify_all obs (notifications m b env) s \<and>
   notifications m b env \<noteq> [] \<and>
   sorted (map progress (butlast (notifications m b env))) \<and>
   terminal (last (notifications m b env)) \<and>
   progress (last (notifications m b env)) =
     (if status (last (notifications m b env)) = Success then 100 else 0) \<and>
   sorted (map progress (notifications m b env)) = success (outcome m b env)"
  using notifications_shape [of m b env] by (simp add: upload_by_mode_observer)

text \<open>
  Claim C7 asks for exactly one terminal notification per call. In \<^verbatim>\<open>realUpload\<close> the
  success notification is made inside the \<^verbatim>\<open>try\<close> block, before \<^verbatim>\<open>result.url\<close> is
  read. When the server answers 2xx with the JSON body \<open>null\<close>, that read throws, the
  \<^verbatim>\<open>catch\<close> block notifies failure as well, and the observer has received two terminal
  notifications, \<open>Success\<close> and then \<open>Failed\<close>, while the call returns failure.
\<close>

theorem realUpload_null_body_terminal_twice:
  "notifications Real blob_example null_body_env =
     [\<lparr> status = Uploading, progress = 50, message = ''Uploading to server...'' \<rparr>,
      \<lparr> status = Success, progress = 100, message = ''Upload successful!'' \<rparr>,
      \<lparr> status = Failed, progress = 0, message = ''Upload failed: result is null'' \<rparr>] \<and>
   length (filter terminal (notifications Real blob_example null_body_env)) = 2 \<and>
   success (outcome Real blob_example null_body_env) = False"
proof -
  have f: "fetch null_body_env = Response True 200 ''OK'' (Inr JsonNull)"
    by (simp add: null_body_env_def)
  have m: "null_property_message null_body_env = ''result is null''"
    by (simp add: null_body_env_def upload_env_example_def)
  from Real_null [OF f, of blob_example] show ?thesis
    by (simp add: m terminal_def)
qed

text \<open>
  Claim C10. The forced failure does not depend on the record: the blob and the
  environment do not reach \<open>forceFailUpload\<close>, which has no payload parameter, so any
  two runs with the same callback give the same result, \<open>success = False\<close> with the
  message \<^verbatim>\<open>'Network connection lost - Upload failed'\<close>, and the same five
  notifications. In the coordinator, with \<open>uploadMode\<close> set to the forced failure,
  \<open>handleUpload\<close> ends the same way for any two ids, blobs and environments.
\<close>

theorem forceFailUpload_independent_of_record:
  "upload_by_mode ForceFail b1 env1 obs s = upload_by_mode ForceFail b2 env2 obs s \<and>
   upload_by_mode ForceFail b1 env1 obs s = forceFailUpload obs s \<and>
   outcome ForceFail b1 env1 =
     \<lparr> success = False, result_message = ''Network connection lost - Upload failed'',
       uploadedUrl = None \<rparr> \<and>
   notifications ForceFail b1 env1 =
     [uploading_at 0, uploading_at 20, uploading_at 40, uploading_at 60,
      \<lparr> status = Failed, progress = 0, message = ''Network connection lost'' \<rparr>] \<and>
   notifications ForceFail b1 env1 = notifications ForceFail b2 env2 \<and>
   (uploadMode st = ForceFail \<longrightarrow>
      handleUpload k1 b1 env1 st = handleUpload k2 b2 env2 st)"
  by (simp add: upload_by_mode_def notifications_ForceFail outcome_ForceFail
      handleUpload_eq Let_def)

theorem forceFailUpload_independent_of_record_witness:
  "uploadMode page_example = ForceFail \<and>
   handleUpload ''video_1704567890123_abc123'' blob_example upload_env_example page_example =
     handleUpload ''video_404'' (Blob [9] ''video/mp4'') null_body_env page_example"
proof -
  note t = forceFailUpload_independent_of_record
    [of blob_example upload_env_example "None :: (UploadProgress \<Rightarrow> unit \<Rightarrow> unit) option" "()"
      "Blob [9] ''video/mp4''" null_body_env page_example
      "''video_1704567890123_abc123''" "''video_404''"]
  note r = t [THEN conjunct2, THEN conjunct2, THEN conjunct2, THEN conjunct2, THEN conjunct2,
    THEN mp, OF page_example_simps(2)]
  from page_example_simps(2) r show ?thesis
    by - (intro conjI, assumption+)
qed

section \<open>Claims about the coordinator\<close>

text \<open>
  Claim C1. After \<open>handleUpload\<close> the storage service is the one \<open>markAsUploaded\<close>
  leaves when the strategy's result has \<open>success = True\<close>, and the one it was before
  otherwise. So for every id and every upload whose result has \<open>success = False\<close>:
  the handler ends without error, the storage service and the list of stored videos are
  unchanged, \<open>getVideo\<close> of the id reads what it read before, the progress shown is
  \<open>Failed\<close> and so the upload buttons are not disabled, and when the record exists a
  further upload of the same id whose strategy succeeds ends without error with the
  record marked \<open>uploaded\<close>.
\<close>

theorem failed_upload_leaves_store_untouched:
  "storage (snd (handleUpload k b env st)) =
     (if success (outcome (uploadMode st) b env)
      then snd (markAsUploaded k (storage st)) else storage st) \<and>
   (\<not> success (outcome (uploadMode st) b env) \<longrightarrow>
      fst (handleUpload k b env st) = Inr () \<and>
      storage (snd (handleUpload k b env st)) = storage st \<and>
      storedVideos (snd (handleUpload k b env st)) = storedVideos st \<and>
      fst (getVideo k (storage (snd (handleUpload k b env st)))) = fst (getVideo k (storage st)) \<and>
      status (uploadProgress (snd (handleUpload k b env st))) = Failed \<and>
      \<not> upload_disabled (snd (handleUpload k b env st)) \<and>
      (\<forall>v m2 env2.
         fst (getVideo k (storage st)) = Some v \<and> success (outcome m2 b env2) \<longrightarrow>
           fst (handleUpload k b env2 ((snd (handleUpload k b env st))\<lparr>uploadMode := m2\<rparr>)) =
             Inr () \<and>
           fst (getVideo k (storage (snd
             (handleUpload k b env2 ((snd (handleUpload k b env st))\<lparr>uploadMode := m2\<rparr>))))) =
             Some (v\<lparr>uploaded := True\<rparr>)))"
proof (intro conjI impI allI)
  show "storage (snd (handleUpload k b env st)) =
     (if success (outcome (uploadMode st) b env)
      then snd (markAsUploaded k (storage st)) else storage st)"
    by (rule handleUpload_storage)
next
  assume f: "\<not> success (outcome (uploadMode st) b env)"
  let ?st' = "snd (handleUpload k b env st)"
  have st': "?st' = st\<lparr>uploadProgress := last (notifications (uploadMode st) b env),
                 pendingResets := pendingResets st + 1\<rparr>"
    using f by (simp add: handleUpload_failure)
  have failed: "status (last (notifications (uploadMode st) b env)) = Failed"
    using terminal_last_matches_outcome [of "uploadMode st" b env] f
    by (auto simp: terminal_def)
  show "fst (handleUpload k b env st) = Inr ()"
    using f by (simp add: handleUpload_failure)
  show "storage ?st' = storage st" "storedVideos ?st' = storedVideos st"
    "fst (getVideo k (storage ?st')) = fst (getVideo k (storage st))"
    by (simp_all add: st')
  show "status (uploadProgress ?st') = Failed"
    by (simp add: st' failed)
  then show "\<not> upload_disabled ?st'"
    by (simp add: upload_disabled_def)
  fix v m2 env2
  assume a: "fst (getVideo k (storage st)) = Some v \<and> success (outcome m2 b env2)"
  then have g: "store_get k (videos (storage st)) = Some v"
    by (simp add: getVideo_eq)
  define st2 where "st2 = ?st'\<lparr>uploadMode := m2\<rparr>"
  have s2: "storage st2 = storage st" "uploadMode st2 = m2"
    by (simp_all add: st2_def st')
  from a have ok: "success (outcome (uploadMode st2) b env2)"
    by (simp add: s2)
  from g have g2: "store_get k (videos (storage st2)) = Some v"
    by (simp add: s2)
  from handleUpload_success [OF ok g2]
  show "fst (handleUpload k b env2 (?st'\<lparr>uploadMode := m2\<rparr>)) = Inr ()"
    and "fst (getVideo k (storage (snd (handleUpload k b env2 (?st'\<lparr>uploadMode := m2\<rparr>))))) =
      Some (v\<lparr>uploaded := True\<rparr>)"
    by (simp_all only: st2_def)
qed

theorem failed_upload_leaves_store_untouched_witness:
  "\<not> success (outcome (uploadMode page_example) blob_example upload_env_example) \<and>
   fst (handleUpload ''video_1704567890123_abc123'' blob_example upload_env_example
         page_example) = Inr () \<and>
   storage (snd (handleUpload ''video_1704567890123_abc123'' blob_example upload_env_example
         page_example)) = storage page_example \<and>
   fst (getVideo ''video_1704567890123_abc123'' (storage page_example)) = Some video_example \<and>
   success (outcome Mock blob_example upload_env_example) \<and>
   fst (getVideo ''video_1704567890123_abc123'' (storage (snd
     (handleUpload ''video_1704567890123_abc123'' blob_example upload_env_example
       ((snd (handleUpload ''video_1704567890123_abc123'' blob_example upload_env_example
           page_example))\<lparr>uploadMode := Mock\<rparr>))))) =
     Some (video_example\<lparr>uploaded := True\<rparr>)"
proof -
  have f: "\<not> success (outcome (uploadMode page_example) blob_example upload_env_example)"
    by (simp add: page_example_simps outcome_ForceFail)
  have g: "fst (getVideo ''video_1704567890123_abc123'' (storage page_example)) =
      Some video_example"
    by (simp add: page_example_simps getVideo_example)
  note t = failed_upload_leaves_store_untouched
    [of "''video_1704567890123_abc123''" blob_example upload_env_example page_example,
      THEN conjunct2, THEN mp, OF f]
  note r1 = t [THEN conjunct1]
  note r2 = t [THEN conjunct2, THEN conjunct1]
  note r3 = t [THEN conjunct2, THEN conjunct2, THEN conjunct2, THEN conjunct2, THEN conjunct2,
    THEN conjunct2, THEN spec, THEN spec, THEN spec, THEN mp,
    OF conjI [OF g outcome_Mock_example], THEN conjunct2]
  from f r1 r2 g outcome_Mock_example r3 show ?thesis
    by - (intro conjI, assumption+)
qed

text \<open>
  Claim C5, as the code has it: for an id that the store does not hold,
  \<open>handleUpload\<close> in mock mode with a succeeding draw runs the strategy to its
  \<open>Success\<close> notification and only then fails with \<open>NotFound\<close>, raised by
  \<open>markAsUploaded\<close>; and the upload button under the recorder, which does look the
  record up first, ends without any error.
\<close>

theorem upload_of_missing_record_counterexample:
  "fst (getVideo ''video_404'' (storage (page_example\<lparr>uploadMode := Mock\<rparr>))) = None \<and>
   uploadProgress (snd (handleUpload ''video_404'' blob_example upload_env_example
       (page_example\<lparr>uploadMode := Mock\<rparr>))) =
     \<lparr> status = Success, progress = 100, message = ''Upload successful!'' \<rparr> \<and>
   fst (handleUpload ''video_404'' blob_example upload_env_example
       (page_example\<lparr>uploadMode := Mock\<rparr>)) = Inl NotFound \<and>
   fst (upload_button_onClick ''video_404'' upload_env_example
       (page_example\<lparr>uploadMode := Mock\<rparr>)) = Inr () \<and>
   fst (upload_button_onClick ''video_404'' upload_env_example
       (page_example\<lparr>uploadMode := Mock\<rparr>)) \<noteq> Inl NotFound"
proof -
  have g: "store_get ''video_404'' (videos (storage (page_example\<lparr>uploadMode := Mock\<rparr>))) = None"
    by (simp add: page_example_simps svc_example_def store_get_def)
  have m: "uploadMode (page_example\<lparr>uploadMode := Mock\<rparr>) = Mock"
    by simp
  show ?thesis
    using g outcome_Mock_example
    by (simp add: handleUpload_progress handleUpload_absent [OF g] m
        notifications_Mock_example getVideo_eq upload_button_onClick_def)
qed

text \<open>
  Claim C5, amended. The upload button under the recorder fetches the record from the
  store by id before anything else: when the record is not found nothing further happens
  (no strategy runs, the progress shown is unchanged, no error is raised), and when it is
  found the upload runs on the fetched blob. The upload button of a listed video passes
  the listed id and blob on. \<open>handleUpload\<close> itself looks nothing up: it runs the
  strategy on the blob it is given, the progress shown afterwards is the strategy's last
  notification, and for an id that the store does not hold it raises \<open>NotFound\<close> only
  after a successful strategy, leaving the stored videos as they were.
\<close>

theorem upload_button_fetches_record_first:
  "(fst (getVideo k (storage st)) = None \<longrightarrow>
      upload_button_onClick k env st = (Inr (), st\<lparr>storage := ensure_db (storage st)\<rparr>)) \<and>
   (\<forall>v. fst (getVideo k (storage st)) = Some v \<longrightarrow>
      upload_button_onClick k env st =
        handleUpload k (blob v) env (st\<lparr>storage := ensure_db (storage st)\<rparr>)) \<and>
   stored_video_onClick video env st = handleUpload (id_v video) (blob video) env st \<and>
   uploadProgress (snd (handleUpload k b env st)) = last (notifications (uploadMode st) b env) \<and>
   (fst (getVideo k (storage st)) = None \<longrightarrow>
      fst (handleUpload k b env st) =
        (if success (outcome (uploadMode st) b env) then Inl NotFound else Inr ()) \<and>
      videos (storage (snd (handleUpload k b env st))) = videos (storage st))"
proof (intro conjI impI allI)
  show "upload_button_onClick k env st = (Inr (), st\<lparr>storage := ensure_db (storage st)\<rparr>)"
    if "fst (getVideo k (storage st)) = None"
    using that by (simp add: upload_button_onClick_def getVideo_eq)
  show "upload_button_onClick k env st =
        handleUpload k (blob v) env (st\<lparr>storage := ensure_db (storage st)\<rparr>)"
    if "fst (getVideo k (storage st)) = Some v" for v
    using that by (simp add: upload_button_onClick_def getVideo_eq)
  show "stored_video_onClick video env st = handleUpload (id_v video) (blob video) env st"
    by (simp add: stored_video_onClick_def)
  show "uploadProgress (snd (handleUpload k b env st)) =
      last (notifications (uploadMode st) b env)"
    by (rule handleUpload_progress)
next
  assume "fst (getVideo k (storage st)) = None"
  then have g: "store_get k (videos (storage st)) = None"
    by (simp add: getVideo_eq)
  show "fst (handleUpload k b env st) =
        (if success (outcome (uploadMode st) b env) then Inl NotFound else Inr ())"
    by (rule handleUpload_absent(1) [OF g])
  show "videos (storage (snd (handleUpload k b env st))) = videos (storage st)"
    by (rule handleUpload_absent(2) [OF g])
qed

theorem upload_button_fetches_record_first_witness:
  "fst (getVideo ''video_404'' (storage page_example)) = None \<and>
   upload_button_onClick ''video_404'' upload_env_example page_example =
     (Inr (), page_example\<lparr>storage := ensure_db (storage page_example)\<rparr>) \<and>
   fst (getVideo ''video_1704567890123_abc123'' (storage page_example)) = Some video_example \<and>
   upload_button_onClick ''video_1704567890123_abc123'' upload_env_example page_example =
     handleUpload ''video_1704567890123_abc123'' (blob video_example) upload_env_example
       (page_example\<lparr>storage := ensure_db (storage page_example)\<rparr>) \<and>
   fst (handleUpload ''video_404'' blob_example upload_env_example page_example) =
     (if success (outcome (uploadMode page_example) blob_example upload_env_example)
      then Inl NotFound else Inr ())"
proof -
  have n: "fst (getVideo ''video_404'' (storage page_example)) = None"
    by (simp add: page_example_simps getVideo_example_404)
  have g: "fst (getVideo ''video_1704567890123_abc123'' (storage page_example)) =
      Some video_example"
    by (simp add: page_example_simps getVideo_example)
  note t1 = upload_button_fetches_record_first
    [of "''video_404''" page_example upload_env_example video_example blob_example]
  note t2 = upload_button_fetches_record_first
    [of "''video_1704567890123_abc123''" page_example upload_env_example video_example
      blob_example]
  note r1 = t1 [THEN conjunct1, THEN mp, OF n]
  note r2 = t2 [THEN conjunct2, THEN conjunct1, THEN spec, THEN mp, OF g]
  note r3 = t1 [THEN conjunct2, THEN conjunct2, THEN conjunct2, THEN conjunct2, THEN mp, OF n,
    THEN conjunct1]
  from n r1 g r2 r3 show ?thesis
    by - (intro conjI, assumption+)
qed

end
